theory Spec2Isabelle
  imports Complex_Main
begin

section \<open>The window manager of js/WindowManager.js\<close>

text \<open>
  The module keeps one closure-local \<^verbatim>\<open>state\<close> object and works on the DOM. Both are
  made explicit here: a \<open>world\<close> holds the four fields of \<^verbatim>\<open>state\<close>, a store of the
  element objects (addressed by reference, since the registry, \<^verbatim>\<open>activeWindow\<close> and
  \<^verbatim>\<open>currentMove\<close> alias the same objects), the children of \<^verbatim>\<open>document.body\<close> and the
  listeners registered on \<^verbatim>\<open>document\<close>. Every function takes the world and returns the
  new one. Calls to \<^verbatim>\<open>log\<close> (console output) have no effect on the world and are left out.

  Numbers are JavaScript doubles in the source. The stacking orders, which count up from
  100 in steps of one, and the numeric geometry arguments are integers here, which is exact
  for integral values below \<open>2 ^ 53\<close>. The coordinates of pointers and rectangles, which
  may be fractional, are of an arbitrary type \<open>'n\<close> with its own addition and subtraction,
  and the conversion of such a number to text is a parameter \<open>toText\<close> of the functions
  that print one: what is proved of them holds for every arithmetic, that of doubles included.
\<close>

subsection \<open>Numbers and their text\<close>

definition digit :: "nat \<Rightarrow> char" where
  "digit n = ''0123456789'' ! (n mod 10)"

fun showNat :: "nat \<Rightarrow> string" where
  "showNat n = (if n < 10 then [digit n] else showNat (n div 10) @ [digit n])"

declare showNat.simps [simp del]

text \<open>The text JavaScript gives an integral number inside a template literal.\<close>

definition showInt :: "int \<Rightarrow> string" where
  "showInt i = (if i < 0 then CHR ''-'' # showNat (nat (- i)) else showNat (nat i))"

text \<open>
  A coordinate read from an event: \<open>None\<close> stands for \<^verbatim>\<open>undefined\<close> (a property the event
  object does not have) and for the \<^verbatim>\<open>NaN\<close> that arithmetic on it yields; \<open>Some x\<close> is
  a number, on which \<open>+\<close> and \<open>-\<close> are those of the number type.
\<close>

type_synonym 'n jsnum = "'n option"

definition jsSub :: "('n::minus) jsnum \<Rightarrow> 'n jsnum \<Rightarrow> 'n jsnum" where
  "jsSub a b = (case a of None \<Rightarrow> None | Some x \<Rightarrow> (case b of None \<Rightarrow> None | Some y \<Rightarrow> Some (x - y)))"

definition jsAdd :: "('n::plus) jsnum \<Rightarrow> 'n jsnum \<Rightarrow> 'n jsnum" where
  "jsAdd a b = (case a of None \<Rightarrow> None | Some x \<Rightarrow> (case b of None \<Rightarrow> None | Some y \<Rightarrow> Some (x + y)))"

text \<open>
  The template literal \<^verbatim>\<open>`${v}px`\<close>, where \<open>toText\<close> gives the text of a number.
\<close>

definition px :: "('n \<Rightarrow> string) \<Rightarrow> 'n jsnum \<Rightarrow> string" where
  "px toText v = (case v of None \<Rightarrow> ''NaN'' | Some i \<Rightarrow> toText i) @ ''px''"

subsection \<open>Events and listeners\<close>

datatype evtype = mousedown | mousemove | mouseup | click | touchstart | touchmove | touchend

text \<open>
  A mouse event carries \<^verbatim>\<open>clientX\<close> and \<^verbatim>\<open>clientY\<close> and has no \<^verbatim>\<open>touches\<close>; a touch
  event carries the list \<^verbatim>\<open>touches\<close> (each with its \<^verbatim>\<open>clientX\<close>, \<^verbatim>\<open>clientY\<close>) and has
  no \<^verbatim>\<open>clientX\<close> of its own.
\<close>

datatype 'n event = MouseEvent evtype 'n 'n | TouchEvent evtype "('n \<times> 'n) list"

fun etype :: "'n event \<Rightarrow> evtype" where
  "etype (MouseEvent t x y) = t"
| "etype (TouchEvent t ts) = t"

datatype error = TypeError | NetworkError | HttpError nat string

text \<open>The regions of a window that \<^verbatim>\<open>bindWindowEvents\<close> selects and listens on.\<close>

datatype region = TitleBar | WindowBody | StatusBar | CloseButton

text \<open>
  The closures that \<^verbatim>\<open>bindWindowEvents\<close> registers. \<open>ExceptClose cb h\<close> is
  \<^verbatim>\<open>createEventHandler(h)\<close>, where \<open>cb\<close> tells whether the captured \<^verbatim>\<open>closeButton\<close> is
  an element (rather than null).
\<close>

datatype handler = ActivateHandler | StartMoveHandler | CloseHandler | CloseTouchHandler
  | ExceptClose bool handler

datatype doc_handler = HandleMove | EndMove

subsection \<open>Elements, the registry and the world\<close>

text \<open>
  What the four selectors of the module find in a content fragment: \<^verbatim>\<open>.title-bar\<close>
  (and whether that element carries the class \<^verbatim>\<open>inactive\<close> in the markup),
  \<^verbatim>\<open>.title-bar-controls [aria-label="Close"]\<close>, \<^verbatim>\<open>.window-body\<close> and \<^verbatim>\<open>.status-bar\<close>.
\<close>

record fragment =
  fr_titleBar :: bool
  fr_inactive :: bool
  fr_closeButton :: bool
  fr_windowBody :: bool
  fr_statusBar :: bool

text \<open>
  An element object. The style fields hold what the program assigned; \<open>hasTitleBar\<close> and
  the like tell what \<^verbatim>\<open>querySelector\<close> finds below the element; \<open>inactive\<close> is the class
  of its title bar; \<open>listeners\<close> are the listeners on its regions, in registration order.
\<close>

record html_element =
  dataset_windowId :: "string option"
  style_position :: string
  style_width :: string
  style_maxHeight :: string
  style_top :: string
  style_left :: string
  style_bottom :: string
  style_right :: string
  style_zIndex :: "int option"
  hasTitleBar :: bool
  inactive :: bool
  hasCloseButton :: bool
  hasWindowBody :: bool
  hasStatusBar :: bool
  listeners :: "(region \<times> evtype \<times> handler) list"

type_synonym ref = nat

record windowData =
  win_id :: string
  win_element :: ref
  win_appPath :: string

record 'n move =
  mv_windowElement :: ref
  startX :: "'n jsnum"
  startY :: "'n jsnum"
  windowStartX :: 'n
  windowStartY :: 'n
  isTouch :: bool

record 'n world =
  windows :: "windowData list"
  maxZIndex :: int
  activeWindow :: "ref option"
  currentMove :: "'n move option"
  elems :: "ref \<Rightarrow> html_element"
  nextRef :: ref
  bodyChildren :: "ref list"
  docListeners :: "(evtype \<times> doc_handler) list"

text \<open>\<^verbatim>\<open>document.createElement('div')\<close>: no data attribute, no style, no children.\<close>

definition newDiv :: html_element where
  "newDiv = \<lparr>dataset_windowId = None, style_position = '''', style_width = '''',
     style_maxHeight = '''', style_top = '''', style_left = '''', style_bottom = '''',
     style_right = '''', style_zIndex = None, hasTitleBar = False, inactive = False,
     hasCloseButton = False, hasWindowBody = False, hasStatusBar = False, listeners = []\<rparr>"

text \<open>The world when the module has just been loaded.\<close>

definition initial :: "'n world" where
  "initial = \<lparr>windows = [], maxZIndex = 100, activeWindow = None, currentMove = None,
     elems = (\<lambda>r. newDiv), nextRef = 0, bodyChildren = [], docListeners = []\<rparr>"

subsection \<open>activateWindow\<close>

text \<open>One round of the \<^verbatim>\<open>forEach\<close> that marks every registered title bar inactive.\<close>

definition addInactive :: "(ref \<Rightarrow> html_element) \<Rightarrow> windowData \<Rightarrow> (ref \<Rightarrow> html_element)" where
  "addInactive es win =
     (if hasTitleBar (es (win_element win))
      then es(win_element win := (es (win_element win))\<lparr>inactive := True\<rparr>)
      else es)"

definition activateWindow :: "'n world \<Rightarrow> ref \<Rightarrow> 'n world" where
  "activateWindow w windowElement =
     (let z = maxZIndex w + 1;
          es1 = (elems w)(windowElement := (elems w windowElement)\<lparr>style_zIndex := Some z\<rparr>);
          es2 = foldl addInactive es1 (windows w);
          es3 = (if hasTitleBar (es2 windowElement)
                 then es2(windowElement := (es2 windowElement)\<lparr>inactive := False\<rparr>)
                 else es2)
      in w\<lparr>activeWindow := Some windowElement, maxZIndex := z, elems := es3\<rparr>)"

subsection \<open>closeWindow\<close>

text \<open>\<^verbatim>\<open>Array.prototype.findIndex\<close>, with \<open>None\<close> for its \<open>-1\<close>.\<close>

primrec findIndex :: "('a \<Rightarrow> bool) \<Rightarrow> 'a list \<Rightarrow> nat option" where
  "findIndex P [] = None"
| "findIndex P (x # xs) = (if P x then Some 0 else map_option Suc (findIndex P xs))"

text \<open>\<^verbatim>\<open>xs.splice(i, 1)\<close> for an index inside the array.\<close>

definition splice1 :: "nat \<Rightarrow> 'a list \<Rightarrow> 'a list" where
  "splice1 i xs = take i xs @ drop (Suc i) xs"

definition closeWindow :: "'n world \<Rightarrow> ref \<Rightarrow> 'n world" where
  "closeWindow w windowElement =
     (let w1 = w\<lparr>bodyChildren := removeAll windowElement (bodyChildren w)\<rparr>;
          w2 = (case findIndex (\<lambda>win. win_element win = windowElement) (windows w1) of
                  None \<Rightarrow> w1
                | Some index \<Rightarrow> w1\<lparr>windows := splice1 index (windows w1)\<rparr>)
      in if activeWindow w2 = Some windowElement
         then (let w3 = w2\<lparr>activeWindow := None\<rparr>
               in if length (windows w3) > 0
                  then activateWindow w3 (win_element (last (windows w3)))
                  else w3)
         else w2)"

subsection \<open>The drag controller\<close>

text \<open>
  \<^verbatim>\<open>document.addEventListener\<close> ignores a listener that is already registered for the
  type; \<^verbatim>\<open>handleMove\<close> and \<^verbatim>\<open>endMove\<close> are the same two function objects at every call.
\<close>

definition addDocListener :: "evtype \<times> doc_handler \<Rightarrow> (evtype \<times> doc_handler) list \<Rightarrow> (evtype \<times> doc_handler) list" where
  "addDocListener l ls = (if l \<in> set ls then ls else ls @ [l])"

definition moveListeners :: "bool \<Rightarrow> (evtype \<times> doc_handler) list" where
  "moveListeners touch =
     (if touch then [(touchmove, HandleMove), (touchend, EndMove)]
      else [(mousemove, HandleMove), (mouseup, EndMove)])"

text \<open>
  \<open>startMove w windowElement event rect\<close>, where \<open>rect\<close> is the (left, top) corner that
  \<^verbatim>\<open>getBoundingClientRect\<close> reports for the element. The result carries the error thrown,
  if any, and the world as the function left it.
\<close>

definition startMove :: "'n world \<Rightarrow> ref \<Rightarrow> 'n event \<Rightarrow> 'n \<times> 'n \<Rightarrow> error option \<times> 'n world" where
  "startMove w windowElement event rect =
     (let w1 = activateWindow w windowElement;
          client =
            (if etype event = touchstart
             then (case event of
                     TouchEvent t ts \<Rightarrow>
                       (case ts of [] \<Rightarrow> None | p # ps \<Rightarrow> Some (Some (fst p), Some (snd p)))
                   | MouseEvent t x y \<Rightarrow> None)
             else (case event of
                     MouseEvent t x y \<Rightarrow> Some (Some x, Some y)
                   | TouchEvent t ts \<Rightarrow> Some (None, None)))
      in case client of
           None \<Rightarrow> (Some TypeError, w1)
         | Some c \<Rightarrow>
             (let m = \<lparr>mv_windowElement = windowElement, startX = fst c, startY = snd c,
                       windowStartX = fst rect, windowStartY = snd rect,
                       isTouch = (etype event = touchstart)\<rparr>
              in (None, w1\<lparr>currentMove := Some m,
                           docListeners := foldl (\<lambda>ls l. addDocListener l ls) (docListeners w1)
                                             (moveListeners (isTouch m))\<rparr>)))"

text \<open>
  \<open>handleMove toText w event\<close>, where \<open>toText\<close> is the conversion of a number to text that
  the two template literals apply to the sums.
\<close>

definition handleMove ::
  "(('n::{plus,minus}) \<Rightarrow> string) \<Rightarrow> 'n world \<Rightarrow> 'n event \<Rightarrow> error option \<times> 'n world" where
  "handleMove toText w event =
     (case currentMove w of
        None \<Rightarrow> (None, w)
      | Some m \<Rightarrow>
          (let client =
                 (if isTouch m
                  then (case event of
                          TouchEvent t ts \<Rightarrow>
                            (case ts of [] \<Rightarrow> Inr None
                                      | p # ps \<Rightarrow> Inr (Some (Some (fst p), Some (snd p))))
                        | MouseEvent t x y \<Rightarrow> Inl TypeError)
                  else (case event of
                          MouseEvent t x y \<Rightarrow> Inr (Some (Some x, Some y))
                        | TouchEvent t ts \<Rightarrow> Inr (Some (None, None))))
           in case client of
                Inl e \<Rightarrow> (Some e, w)
              | Inr None \<Rightarrow> (None, w)
              | Inr (Some c) \<Rightarrow>
                  (let deltaX = jsSub (fst c) (startX m);
                       deltaY = jsSub (snd c) (startY m);
                       el = mv_windowElement m
                   in (None, w\<lparr>elems := (elems w)(el := (elems w el)
                         \<lparr>style_left := px toText (jsAdd (Some (windowStartX m)) deltaX),
                          style_top := px toText (jsAdd (Some (windowStartY m)) deltaY)\<rparr>)\<rparr>))))"

definition endMove :: "'n world \<Rightarrow> 'n world" where
  "endMove w =
     (case currentMove w of
        None \<Rightarrow> w
      | Some m \<Rightarrow> w\<lparr>docListeners := filter (\<lambda>l. l \<notin> set (moveListeners (isTouch m))) (docListeners w),
                    currentMove := None\<rparr>)"

subsection \<open>bindWindowEvents\<close>

definition addListeners :: "'n world \<Rightarrow> ref \<Rightarrow> (region \<times> evtype \<times> handler) list \<Rightarrow> 'n world" where
  "addListeners w r ls =
     w\<lparr>elems := (elems w)(r := (elems w r)\<lparr>listeners := listeners (elems w r) @ ls\<rparr>)\<rparr>"

text \<open>
  The result carries the error thrown, if any, and the world as the function left it:
  the listeners registered before a throw stay registered. Calling \<^verbatim>\<open>addEventListener\<close> on
  the null that \<^verbatim>\<open>querySelector('.status-bar')\<close> returns throws a TypeError.
\<close>

definition bindWindowEvents :: "'n world \<Rightarrow> ref \<Rightarrow> error option \<times> 'n world" where
  "bindWindowEvents w windowElement =
     (let titleBar = hasTitleBar (elems w windowElement);
          closeButton = hasCloseButton (elems w windowElement)
      in if \<not> titleBar then (None, w)
         else
          (let w1 = addListeners w windowElement
                      [(TitleBar, mousedown, ExceptClose closeButton ActivateHandler),
                       (TitleBar, touchstart, ExceptClose closeButton ActivateHandler)];
               windowBody = hasWindowBody (elems w1 windowElement);
               w2 = (if windowBody
                     then addListeners w1 windowElement
                            [(WindowBody, mousedown, ActivateHandler),
                             (WindowBody, touchstart, ActivateHandler)]
                     else w1);
               windowStatusBar = hasStatusBar (elems w2 windowElement)
           in if windowBody \<and> \<not> windowStatusBar then (Some TypeError, w2)
              else
               (let w3 = (if windowBody
                          then addListeners w2 windowElement
                                 [(StatusBar, mousedown, ActivateHandler),
                                  (StatusBar, touchstart, ActivateHandler)]
                          else w2);
                    w4 = addListeners w3 windowElement
                           [(TitleBar, mousedown, ExceptClose closeButton StartMoveHandler),
                            (TitleBar, touchstart, ExceptClose closeButton StartMoveHandler)];
                    w5 = (if closeButton
                          then addListeners w4 windowElement
                                 [(CloseButton, click, CloseHandler),
                                  (CloseButton, touchend, CloseTouchHandler)]
                          else w4)
                in (None, w5))))"

subsection \<open>createWindow\<close>

text \<open>A geometry argument: a number or a string.\<close>

datatype geom = Num int | Str string

text \<open>\<^verbatim>\<open>typeof v === 'number' ? `${v}px` : v\<close>\<close>

definition css :: "geom \<Rightarrow> string" where
  "css v = (case v of Num n \<Rightarrow> px showInt (Some n) | Str s \<Rightarrow> s)"

text \<open>A parameter with a default value: \<open>None\<close> is the omitted argument.\<close>

definition param :: "'a option \<Rightarrow> 'a \<Rightarrow> 'a" where
  "param a d = (case a of None \<Rightarrow> d | Some v \<Rightarrow> v)"

text \<open>
  What \<^verbatim>\<open>fetch\<close> and \<^verbatim>\<open>response.text()\<close> deliver: the promise of \<^verbatim>\<open>fetch\<close> is rejected
  (a failure at the network level) or resolves to a response; \<open>body\<close> is the text of the
  response, \<open>None\<close> when reading it fails.
\<close>

record response =
  ok :: bool
  status :: nat
  statusText :: string
  body :: "fragment option"

datatype fetch_outcome = Rejected | Resolved response

text \<open>
  The duplicate check at the head of \<^verbatim>\<open>createWindow\<close>: the first registered window of
  the same path when \<^verbatim>\<open>checkDuplicate\<close> is set, and nothing otherwise.
\<close>

definition existingWindow :: "'n world \<Rightarrow> string \<Rightarrow> bool \<Rightarrow> windowData option" where
  "existingWindow w appPath checkDuplicate =
     (if checkDuplicate then find (\<lambda>win. win_appPath win = appPath) (windows w) else None)"

text \<open>
  \<open>createWindow w appPath width height top left bottom right checkDuplicate windowId fetched\<close>:
  \<open>windowId\<close> is what \<^verbatim>\<open>generateWindowId\<close> returns (time and random digits) and
  \<open>fetched\<close> what the fetch of \<open>appPath\<close> delivers. The function is run without another
  callback between its two \<^verbatim>\<open>await\<close>s and its end. The result is the value the returned
  promise resolves to (\<open>None\<close> for null): the \<^verbatim>\<open>catch\<close> clause turns every error into
  null and leaves the world as it was when the error was thrown.
\<close>

definition createWindow ::
  "'n world \<Rightarrow> string \<Rightarrow> geom option \<Rightarrow> geom option \<Rightarrow> geom option \<Rightarrow> geom option \<Rightarrow>
   geom option \<Rightarrow> geom option \<Rightarrow> bool option \<Rightarrow> string \<Rightarrow> fetch_outcome \<Rightarrow> ref option \<times> 'n world" where
  "createWindow w appPath width height top' left bottom right checkDuplicate windowId fetched =
     (let width = param width (Str ''400'');
          height = param height (Str ''300'');
          top' = param top' (Str ''auto'');
          left = param left (Str ''auto'');
          bottom = param bottom (Str ''auto'');
          right = param right (Str ''auto'');
          checkDuplicate = param checkDuplicate False
      in case existingWindow w appPath checkDuplicate of
           Some existing \<Rightarrow> (Some (win_element existing), activateWindow w (win_element existing))
         | None \<Rightarrow>
            (case fetched of
               Rejected \<Rightarrow> (None, w)
             | Resolved response \<Rightarrow>
                 if \<not> ok response then (None, w)
                 else
                  (case body response of
                     None \<Rightarrow> (None, w)
                   | Some appContent \<Rightarrow>
                      (let windowElement = nextRef w;
                           el1 = newDiv\<lparr>dataset_windowId := Some windowId\<rparr>;
                           el2 = el1\<lparr>style_position := ''absolute'',
                                    style_width := css width,
                                    style_maxHeight := css height,
                                    style_top := css top',
                                    style_left := css left,
                                    style_bottom := css bottom,
                                    style_right := css right,
                                    style_zIndex := Some (maxZIndex w + 1)\<rparr>;
                           w1 = w\<lparr>nextRef := Suc (nextRef w), maxZIndex := maxZIndex w + 1\<rparr>;
                           el3 = el2\<lparr>hasTitleBar := fr_titleBar appContent,
                                    inactive := fr_inactive appContent,
                                    hasCloseButton := fr_closeButton appContent,
                                    hasWindowBody := fr_windowBody appContent,
                                    hasStatusBar := fr_statusBar appContent\<rparr>;
                           w2 = w1\<lparr>elems := (elems w1)(windowElement := el3),
                                   bodyChildren := bodyChildren w1 @ [windowElement]\<rparr>;
                           windowData = \<lparr>win_id = windowId, win_element = windowElement,
                                         win_appPath = appPath\<rparr>;
                           w3 = w2\<lparr>windows := windows w2 @ [windowData]\<rparr>
                       in case bindWindowEvents w3 windowElement of
                            (Some e, w4) \<Rightarrow> (None, w4)
                          | (None, w4) \<Rightarrow> (Some windowElement, activateWindow w4 windowElement)))))"

subsection \<open>Dispatching events\<close>

text \<open>
  Running one registered closure of the window \<open>r\<close> on an event. \<open>onClose\<close> tells whether
  the target of the event is the close control or lies inside it, and \<open>rect\<close> is what
  \<^verbatim>\<open>getBoundingClientRect\<close> would report for the window.
\<close>

fun runHandler :: "'n world \<Rightarrow> ref \<Rightarrow> handler \<Rightarrow> 'n event \<Rightarrow> bool \<Rightarrow> 'n \<times> 'n \<Rightarrow> error option \<times> 'n world" where
  "runHandler w r ActivateHandler e onClose rect = (None, activateWindow w r)"
| "runHandler w r StartMoveHandler e onClose rect = startMove w r e rect"
| "runHandler w r CloseHandler e onClose rect = (None, closeWindow w r)"
| "runHandler w r CloseTouchHandler e onClose rect = (None, closeWindow w r)"
| "runHandler w r (ExceptClose closeButton h) e onClose rect =
     (if closeButton \<and> onClose then (None, w) else runHandler w r h e onClose rect)"

text \<open>
  An event of the window \<open>r\<close> reaching one of its regions: the listeners registered there
  for the type of the event run in registration order; an error thrown by one of them is
  reported by the browser and does not stop the others.
\<close>

definition dispatchEvent :: "'n world \<Rightarrow> ref \<Rightarrow> region \<Rightarrow> 'n event \<Rightarrow> bool \<Rightarrow> 'n \<times> 'n \<Rightarrow> 'n world" where
  "dispatchEvent w r rg e onClose rect =
     foldl (\<lambda>w' h. snd (runHandler w' r h e onClose rect)) w
       (map (\<lambda>l. snd (snd l))
          (filter (\<lambda>l. fst l = rg \<and> fst (snd l) = etype e) (listeners (elems w r))))"

fun runDocHandler ::
  "(('n::{plus,minus}) \<Rightarrow> string) \<Rightarrow> 'n world \<Rightarrow> doc_handler \<Rightarrow> 'n event \<Rightarrow> 'n world" where
  "runDocHandler toText w HandleMove e = snd (handleMove toText w e)"
| "runDocHandler toText w EndMove e = endMove w"

text \<open>An event reaching \<^verbatim>\<open>document\<close>.\<close>

definition dispatchDocument ::
  "(('n::{plus,minus}) \<Rightarrow> string) \<Rightarrow> 'n world \<Rightarrow> 'n event \<Rightarrow> 'n world" where
  "dispatchDocument toText w e =
     foldl (\<lambda>w' h. runDocHandler toText w' h e) w
       (map snd (filter (\<lambda>l. fst l = etype e) (docListeners w)))"

subsection \<open>Sample runs\<close>

text \<open>
  In the sample runs the coordinates are rational numbers with their exact arithmetic, which
  is the arithmetic of doubles on the values that occur in them (integers and halves of
  small size).
\<close>

text \<open>A fragment with all four regions, and a successful fetch of a fragment.\<close>

definition fullFragment :: fragment where
  "fullFragment = \<lparr>fr_titleBar = True, fr_inactive = False, fr_closeButton = True,
     fr_windowBody = True, fr_statusBar = True\<rparr>"

definition fetchedOk :: "fragment \<Rightarrow> fetch_outcome" where
  "fetchedOk f = Resolved \<lparr>ok = True, status = 200, statusText = ''OK'', body = Some f\<rparr>"

text \<open>Window A is created in the initial world, then window B.\<close>

definition createdA :: "ref option \<times> rat world" where
  "createdA = createWindow initial ''/apps/notes.html'' (Some (Num 400)) (Some (Num 300))
     None None None None None ''win_a'' (fetchedOk fullFragment)"

definition worldA :: "rat world" where
  "worldA = snd createdA"

definition worldAB :: "rat world" where
  "worldAB = snd (createWindow worldA ''/apps/paint.html'' (Some (Num 400)) (Some (Num 300))
     None None None None None ''win_b'' (fetchedOk fullFragment))"

text \<open>What these runs leave in the store: the listeners and the element of a full window.\<close>

definition fullListeners :: "(region \<times> evtype \<times> handler) list" where
  "fullListeners =
     [(TitleBar, mousedown, ExceptClose True ActivateHandler),
      (TitleBar, touchstart, ExceptClose True ActivateHandler),
      (WindowBody, mousedown, ActivateHandler),
      (WindowBody, touchstart, ActivateHandler),
      (StatusBar, mousedown, ActivateHandler),
      (StatusBar, touchstart, ActivateHandler),
      (TitleBar, mousedown, ExceptClose True StartMoveHandler),
      (TitleBar, touchstart, ExceptClose True StartMoveHandler),
      (CloseButton, click, CloseHandler),
      (CloseButton, touchend, CloseTouchHandler)]"

definition fullWindow :: "string \<Rightarrow> int \<Rightarrow> bool \<Rightarrow> html_element" where
  "fullWindow wid z ina =
     \<lparr>dataset_windowId = Some wid, style_position = ''absolute'',
      style_width = ''400px'', style_maxHeight = ''300px'',
      style_top = ''auto'', style_left = ''auto'', style_bottom = ''auto'',
      style_right = ''auto'', style_zIndex = Some z, hasTitleBar = True,
      inactive = ina, hasCloseButton = True, hasWindowBody = True,
      hasStatusBar = True, listeners = fullListeners\<rparr>"

text \<open>The same call with every geometry argument omitted.\<close>

definition createdDefault :: "ref option \<times> rat world" where
  "createdDefault = createWindow initial ''/apps/notes.html'' None None None None None None None
     ''win_a'' (fetchedOk fullFragment)"

text \<open>A fragment with a title bar and a body but no status bar, and its window.\<close>

definition noStatusFragment :: fragment where
  "noStatusFragment = \<lparr>fr_titleBar = True, fr_inactive = False, fr_closeButton = True,
     fr_windowBody = True, fr_statusBar = False\<rparr>"

definition createdNoStatus :: "ref option \<times> rat world" where
  "createdNoStatus = createWindow initial ''/apps/notes.html'' (Some (Num 400)) (Some (Num 300))
     None None None None None ''win_a'' (fetchedOk noStatusFragment)"

text \<open>A fragment with a close control but no title bar, and its window.\<close>

definition noTitleFragment :: fragment where
  "noTitleFragment = \<lparr>fr_titleBar = False, fr_inactive = False, fr_closeButton = True,
     fr_windowBody = True, fr_statusBar = True\<rparr>"

definition createdNoTitle :: "ref option \<times> rat world" where
  "createdNoTitle = createWindow initial ''/apps/notes.html'' (Some (Num 400)) (Some (Num 300))
     None None None None None ''win_a'' (fetchedOk noTitleFragment)"

text \<open>With A and B open, the path of A is requested again with the duplicate check on.\<close>

definition createdDuplicate :: "ref option \<times> rat world" where
  "createdDuplicate = createWindow worldAB ''/apps/notes.html'' None None None None None None
     (Some True) ''win_c'' Rejected"

text \<open>
  With A and B open, the mouse is pressed on the title bar of A at (10, 20) while A sits at
  (50, 60); then, the button still down, a finger touches the title bar of B at (200, 210)
  while B sits at (70, 80).
\<close>

definition dragA :: "rat world" where
  "dragA = dispatchEvent worldAB 0 TitleBar (MouseEvent mousedown 10 20) False (50, 60)"


text \<open>
  The decimal text of a rational number whose expansion ends within 17 places, which is
  how JavaScript prints the double of that value: \<^verbatim>\<open>String(318.5)\<close> is \<^verbatim>\<open>'318.5'\<close>.
\<close>

fun fracDigits :: "nat \<Rightarrow> rat \<Rightarrow> string" where
  "fracDigits 0 f = []"
| "fracDigits (Suc n) f =
     (if f = 0 then []
      else digit (nat (floor (10 * f))) # fracDigits n (10 * f - of_int (floor (10 * f))))"

definition showRat :: "rat \<Rightarrow> string" where
  "showRat q =
     (if q < 0 then ''-'' else []) @ showNat (nat (floor (abs q))) @
     (if abs q = of_int (floor (abs q)) then []
      else CHR ''.'' # fracDigits 17 (abs q - of_int (floor (abs q))))"

text \<open>
  Window A alone, sitting at (233.5, 311.5) as a window of 400 by 300 that
  \<^verbatim>\<open>createCenteredWindow\<close> centres in a viewport of 867 by 923 does: the mouse is
  pressed on its title bar at (300, 320).
\<close>

definition dragHalf :: "rat world" where
  "dragHalf = dispatchEvent worldA 0 TitleBar (MouseEvent mousedown 300 320) False (467 / 2, 623 / 2)"

section \<open>Properties\<close>

subsection \<open>What activateWindow changes\<close>

lemma foldl_addInactive:
  "foldl addInactive es ws r =
     (if r \<in> win_element ` set ws \<and> hasTitleBar (es r) then (es r)\<lparr>inactive := True\<rparr> else es r)"
  by (induction ws arbitrary: es) (auto simp: addInactive_def)

lemma activateWindow_fields:
  "maxZIndex (activateWindow w r) = maxZIndex w + 1"
  "activeWindow (activateWindow w r) = Some r"
  "windows (activateWindow w r) = windows w"
  "bodyChildren (activateWindow w r) = bodyChildren w"
  "currentMove (activateWindow w r) = currentMove w"
  "docListeners (activateWindow w r) = docListeners w"
  "nextRef (activateWindow w r) = nextRef w"
  by (simp_all add: activateWindow_def Let_def)

lemma activateWindow_elems:
  "elems (activateWindow w r) r' =
     (if r' = r
      then (if hasTitleBar (elems w r)
            then (elems w r)\<lparr>style_zIndex := Some (maxZIndex w + 1), inactive := False\<rparr>
            else (elems w r)\<lparr>style_zIndex := Some (maxZIndex w + 1)\<rparr>)
      else if r' \<in> win_element ` set (windows w) \<and> hasTitleBar (elems w r')
           then (elems w r')\<lparr>inactive := True\<rparr>
           else elems w r')"
  by (simp add: activateWindow_def Let_def foldl_addInactive)

lemma activateWindow_zIndex:
  "style_zIndex (elems (activateWindow w r) r) = Some (maxZIndex w + 1)"
  by (simp add: activateWindow_elems)

subsection \<open>The sample runs, evaluated\<close>

lemma px_400: "px showInt (Some 400) = ''400px''" "px showInt (Some 300) = ''300px''"
  by code_simp+

lemma createdA_eq:
  "createdA =
     (Some 0,
      \<lparr>windows = [\<lparr>win_id = ''win_a'', win_element = 0, win_appPath = ''/apps/notes.html''\<rparr>],
       maxZIndex = 102, activeWindow = Some 0, currentMove = None,
       elems = (\<lambda>r. newDiv)(0 := fullWindow ''win_a'' 102 False),
       nextRef = 1, bodyChildren = [0], docListeners = []\<rparr>)"
  by (simp add: createdA_def createWindow_def existingWindow_def fetchedOk_def fullFragment_def
      initial_def param_def bindWindowEvents_def addListeners_def Let_def activateWindow_def
      addInactive_def newDiv_def css_def px_400 fullWindow_def fullListeners_def)

lemma worldA_eq:
  "worldA =
     \<lparr>windows = [\<lparr>win_id = ''win_a'', win_element = 0, win_appPath = ''/apps/notes.html''\<rparr>],
      maxZIndex = 102, activeWindow = Some 0, currentMove = None,
      elems = (\<lambda>r. newDiv)(0 := fullWindow ''win_a'' 102 False),
      nextRef = 1, bodyChildren = [0], docListeners = []\<rparr>"
  by (simp add: worldA_def createdA_eq)

lemma worldAB_eq:
  "worldAB =
     \<lparr>windows = [\<lparr>win_id = ''win_a'', win_element = 0, win_appPath = ''/apps/notes.html''\<rparr>,
                 \<lparr>win_id = ''win_b'', win_element = 1, win_appPath = ''/apps/paint.html''\<rparr>],
      maxZIndex = 104, activeWindow = Some 1, currentMove = None,
      elems = (\<lambda>r. newDiv)(0 := fullWindow ''win_a'' 102 True, 1 := fullWindow ''win_b'' 104 False),
      nextRef = 2, bodyChildren = [0, 1], docListeners = []\<rparr>"
  by (simp add: worldAB_def worldA_eq createWindow_def existingWindow_def fetchedOk_def
      fullFragment_def param_def bindWindowEvents_def addListeners_def Let_def activateWindow_def
      addInactive_def newDiv_def css_def px_400 fullWindow_def fullListeners_def fun_upd_twist)

subsection \<open>Closing a window\<close>

text \<open>
  Claim C9. Closing the focused window detaches it and removes its record from the registry
  (the first one that holds the element, if any). When no record is left, nothing else
  happens but that no window is focused: \<open>maxZIndex\<close> and every element are as before.
  When records are left, the element of the last of them, the window created most recently
  among the survivors, is focused by \<^verbatim>\<open>activateWindow\<close>: it is the focused window,
  \<open>maxZIndex\<close> is raised by one and is the stacking value of that window, its title bar
  loses the inactive marker, and the title bar of every other registered window has it.
\<close>

theorem closeWindow_focused:
  assumes "activeWindow w = Some windowElement"
  shows "let ws = (case findIndex (\<lambda>win. win_element win = windowElement) (windows w) of
                     None \<Rightarrow> windows w
                   | Some index \<Rightarrow> splice1 index (windows w));
             w3 = w\<lparr>bodyChildren := removeAll windowElement (bodyChildren w),
                    windows := ws, activeWindow := None\<rparr>;
             w' = closeWindow w windowElement
         in windows w' = ws \<and>
            bodyChildren w' = removeAll windowElement (bodyChildren w) \<and>
            activeWindow w' = (if ws = [] then None else Some (win_element (last ws))) \<and>
            w' = (if ws = [] then w3 else activateWindow w3 (win_element (last ws))) \<and>
            maxZIndex w' = (if ws = [] then maxZIndex w else maxZIndex w + 1) \<and>
            (ws = [] \<longrightarrow> elems w' = elems w) \<and>
            (ws \<noteq> [] \<longrightarrow>
               style_zIndex (elems w' (win_element (last ws))) = Some (maxZIndex w') \<and>
               (hasTitleBar (elems w (win_element (last ws))) \<longrightarrow>
                  \<not> inactive (elems w' (win_element (last ws)))) \<and>
               (\<forall>r. r \<noteq> win_element (last ws) \<and> r \<in> win_element ` set ws \<and>
                    hasTitleBar (elems w r) \<longrightarrow> inactive (elems w' r)))"
proof -
  let ?ws = "case findIndex (\<lambda>win. win_element win = windowElement) (windows w) of
               None \<Rightarrow> windows w
             | Some index \<Rightarrow> splice1 index (windows w)"
  let ?w3 = "w\<lparr>bodyChildren := removeAll windowElement (bodyChildren w),
                windows := ?ws, activeWindow := None\<rparr>"
  have run: "closeWindow w windowElement =
               (if ?ws = [] then ?w3 else activateWindow ?w3 (win_element (last ?ws)))"
    using assms by (simp add: closeWindow_def Let_def split: option.splits)
  show ?thesis
  proof (cases "?ws = []")
    case True
    then have "closeWindow w windowElement = ?w3"
      by (simp add: run)
    with True show ?thesis
      by (simp add: Let_def)
  next
    case False
    then have eq: "closeWindow w windowElement = activateWindow ?w3 (win_element (last ?ws))"
      by (simp add: run)
    have fields: "windows (closeWindow w windowElement) = ?ws"
      "bodyChildren (closeWindow w windowElement) = removeAll windowElement (bodyChildren w)"
      "activeWindow (closeWindow w windowElement) = Some (win_element (last ?ws))"
      "maxZIndex (closeWindow w windowElement) = maxZIndex w + 1"
      by (simp_all add: eq activateWindow_fields)
    have z: "style_zIndex (elems (closeWindow w windowElement) (win_element (last ?ws)))
               = Some (maxZIndex w + 1)"
      by (simp add: eq activateWindow_zIndex)
    have raised: "hasTitleBar (elems w (win_element (last ?ws))) \<longrightarrow>
               \<not> inactive (elems (closeWindow w windowElement) (win_element (last ?ws)))"
      by (simp add: eq activateWindow_elems)
    have rest: "\<forall>r. r \<noteq> win_element (last ?ws) \<and> r \<in> win_element ` set ?ws \<and>
                hasTitleBar (elems w r) \<longrightarrow> inactive (elems (closeWindow w windowElement) r)"
      by (simp add: eq activateWindow_elems)
    from False eq fields z raised rest show ?thesis
      unfolding Let_def by (intro conjI impI) simp_all
  qed
qed

text \<open>
  Closing A when it is the only window leaves no focus and the stacking counter at 102;
  closing the focused B while A is open gives the focus to A, which is raised to the new
  stacking value 105 and is no longer marked inactive.
\<close>

theorem closeWindow_focused_witness:
  "activeWindow worldA = Some 0 \<and> windows (closeWindow worldA 0) = [] \<and>
   activeWindow (closeWindow worldA 0) = None \<and>
   maxZIndex (closeWindow worldA 0) = 102 \<and>
   elems (closeWindow worldA 0) = elems worldA \<and>
   activeWindow worldAB = Some 1 \<and> map win_element (windows (closeWindow worldAB 1)) = [0] \<and>
   activeWindow (closeWindow worldAB 1) = Some 0 \<and>
   maxZIndex worldAB = 104 \<and> style_zIndex (elems worldAB 0) = Some 102 \<and>
   inactive (elems worldAB 0) = True \<and>
   maxZIndex (closeWindow worldAB 1) = 105 \<and>
   style_zIndex (elems (closeWindow worldAB 1) 0) = Some 105 \<and>
   inactive (elems (closeWindow worldAB 1) 0) = False"
proof -
  have a: "activeWindow worldA = Some 0" and b: "activeWindow worldAB = Some 1"
    by (simp_all add: worldA_eq worldAB_eq)
  have wa: "(case findIndex (\<lambda>win. win_element win = 0) (windows worldA) of
               None \<Rightarrow> windows worldA
             | Some index \<Rightarrow> splice1 index (windows worldA)) = []"
    by (simp add: worldA_eq splice1_def)
  have wb: "(case findIndex (\<lambda>win. win_element win = 1) (windows worldAB) of
               None \<Rightarrow> windows worldAB
             | Some index \<Rightarrow> splice1 index (windows worldAB))
      = [\<lparr>win_id = ''win_a'', win_element = 0, win_appPath = ''/apps/notes.html''\<rparr>]"
    by (simp add: worldAB_eq splice1_def)
  have before: "maxZIndex worldAB = 104" "style_zIndex (elems worldAB 0) = Some 102"
    "inactive (elems worldAB 0) = True" "hasTitleBar (elems worldAB 0)" "maxZIndex worldA = 102"
    by (simp_all add: worldA_eq worldAB_eq fullWindow_def)
  from closeWindow_focused [OF a] have only:
    "windows (closeWindow worldA 0) = []" "activeWindow (closeWindow worldA 0) = None"
    "maxZIndex (closeWindow worldA 0) = maxZIndex worldA"
    "elems (closeWindow worldA 0) = elems worldA"
    unfolding Let_def wa by (simp_all add: worldA_eq)
  from closeWindow_focused [OF b] have more:
    "windows (closeWindow worldAB 1)
       = [\<lparr>win_id = ''win_a'', win_element = 0, win_appPath = ''/apps/notes.html''\<rparr>]"
    "activeWindow (closeWindow worldAB 1) = Some 0"
    "maxZIndex (closeWindow worldAB 1) = maxZIndex worldAB + 1"
    "style_zIndex (elems (closeWindow worldAB 1) 0) = Some (maxZIndex (closeWindow worldAB 1))"
    "hasTitleBar (elems worldAB 0) \<longrightarrow> \<not> inactive (elems (closeWindow worldAB 1) 0)"
    unfolding Let_def wb
    by (simp_all add: activateWindow_fields activateWindow_elems worldAB_eq fullWindow_def)
  from a b before only more show ?thesis
    by simp
qed

text \<open>
  Claim C10. Closing an element that is not the focused window changes nothing but the
  registry entry of that element and its attachment to the document: the focused window,
  \<open>maxZIndex\<close>, every element object (so every stacking value and every inactive marker),
  the drag record and the document listeners are as before.
\<close>

theorem closeWindow_unfocused_frame:
  assumes "activeWindow w \<noteq> Some windowElement"
  shows "activeWindow (closeWindow w windowElement) = activeWindow w \<and>
         maxZIndex (closeWindow w windowElement) = maxZIndex w \<and>
         elems (closeWindow w windowElement) = elems w \<and>
         currentMove (closeWindow w windowElement) = currentMove w \<and>
         docListeners (closeWindow w windowElement) = docListeners w \<and>
         nextRef (closeWindow w windowElement) = nextRef w \<and>
         bodyChildren (closeWindow w windowElement) = removeAll windowElement (bodyChildren w) \<and>
         windows (closeWindow w windowElement) =
           (case findIndex (\<lambda>win. win_element win = windowElement) (windows w) of
              None \<Rightarrow> windows w
            | Some index \<Rightarrow> splice1 index (windows w))"
  using assms by (simp add: closeWindow_def Let_def split: option.splits)

text \<open>Closing the unfocused A while B has the focus.\<close>

theorem closeWindow_unfocused_frame_witness:
  "activeWindow worldAB \<noteq> Some 0 \<and>
   activeWindow (closeWindow worldAB 0) = Some 1 \<and>
   maxZIndex (closeWindow worldAB 0) = 104 \<and>
   elems (closeWindow worldAB 0) = elems worldAB \<and>
   style_zIndex (elems (closeWindow worldAB 0) 1) = Some 104 \<and>
   inactive (elems (closeWindow worldAB 0) 1) = False \<and>
   bodyChildren (closeWindow worldAB 0) = [1] \<and>
   map win_element (windows (closeWindow worldAB 0)) = [1]"
  using closeWindow_unfocused_frame [of worldAB 0]
  by (simp add: worldAB_eq splice1_def fullWindow_def)

subsection \<open>Creating a window\<close>

lemma bindWindowEvents_fields:
  assumes "bindWindowEvents w r = (e, w')"
  shows "windows w' = windows w" "maxZIndex w' = maxZIndex w" "activeWindow w' = activeWindow w"
    "currentMove w' = currentMove w" "nextRef w' = nextRef w" "bodyChildren w' = bodyChildren w"
    "docListeners w' = docListeners w"
  using assms
  by (auto simp: bindWindowEvents_def addListeners_def Let_def split: if_splits)

text \<open>
  Claim C1, as amended. The element that \<^verbatim>\<open>createWindow\<close> returns carries the stacking
  value \<open>maxZIndex\<close> has afterwards. For a window that the call created this is the prior
  \<open>maxZIndex\<close> plus two, not plus one: the style is first given the prior value plus one,
  and the focus operation that ends the creation raises \<open>maxZIndex\<close> once more and assigns
  it again. When the call returns an already open duplicate, it is the prior value plus one.
\<close>

theorem createWindow_stacking:
  assumes "createWindow w appPath width height top' left bottom right checkDuplicate windowId fetched
             = (Some r, w')"
  shows "style_zIndex (elems w' r) = Some (maxZIndex w') \<and>
         maxZIndex w' = maxZIndex w +
           (if existingWindow w appPath (param checkDuplicate False) = None then 2 else 1)"
  using assms unfolding createWindow_def Let_def
  by (auto split: option.splits fetch_outcome.splits if_splits prod.splits
      simp: activateWindow_fields activateWindow_zIndex dest!: bindWindowEvents_fields(2))

text \<open>Window A, created when \<open>maxZIndex\<close> is 100, has the stacking value 102.\<close>

theorem createWindow_stacking_witness:
  "createWindow initial ''/apps/notes.html'' (Some (Num 400)) (Some (Num 300))
     None None None None None ''win_a'' (fetchedOk fullFragment) = (Some 0, worldA) \<and>
   maxZIndex (initial :: rat world) = 100 \<and>
   style_zIndex (elems worldA 0) = Some 102 \<and> maxZIndex worldA = 102"
proof -
  have run: "createWindow initial ''/apps/notes.html'' (Some (Num 400)) (Some (Num 300))
     None None None None None ''win_a'' (fetchedOk fullFragment) = (Some 0, worldA)"
    unfolding createdA_def [symmetric] by (simp add: createdA_eq worldA_eq)
  have none: "existingWindow (initial :: rat world) ''/apps/notes.html'' (param None False) = None"
    by (simp add: existingWindow_def param_def)
  from createWindow_stacking [OF run] none
  have "style_zIndex (elems worldA 0) = Some (maxZIndex worldA)"
    and "maxZIndex worldA = maxZIndex (initial :: rat world) + 2"
    by simp_all
  moreover have "maxZIndex (initial :: rat world) = 100"
    by (simp add: initial_def)
  ultimately show ?thesis
    using run by simp
qed

text \<open>
  Claim C1 as it was stated fails: created when \<open>maxZIndex\<close> is 100, window A is returned
  with the stacking value 102, which is not the prior \<open>maxZIndex\<close> plus one.
\<close>

theorem createWindow_stacking_counterexample:
  "maxZIndex (initial :: rat world) = 100 \<and> fst createdA = Some 0 \<and>
   style_zIndex (elems (snd createdA) 0) = Some 102 \<and>
   style_zIndex (elems (snd createdA) 0) \<noteq> Some (maxZIndex (initial :: rat world) + 1)"
  by (simp add: createdA_eq initial_def fullWindow_def)

text \<open>
  Claim C4. When the duplicate check does not end the call, so that the content is fetched,
  and the fetch is rejected or resolves to a response that is not ok, \<^verbatim>\<open>createWindow\<close>
  resolves to null and the world is the one it started in: no element is attached and the
  registry is unchanged.
\<close>

theorem createWindow_fetch_failure:
  assumes "existingWindow w appPath (param checkDuplicate False) = None"
    and "fetched = Rejected \<or> (\<exists>response. fetched = Resolved response \<and> \<not> ok response)"
  shows "createWindow w appPath width height top' left bottom right checkDuplicate windowId fetched
           = (None, w)"
  using assms by (auto simp: createWindow_def Let_def)

text \<open>With A open, a rejected fetch and a 404 response for another path.\<close>

theorem createWindow_fetch_failure_witness:
  "existingWindow worldA ''/apps/missing.html'' (param (Some True) False) = None \<and>
   createWindow worldA ''/apps/missing.html'' None None None None None None (Some True) ''win_x''
     Rejected = (None, worldA) \<and>
   createWindow worldA ''/apps/missing.html'' None None None None None None (Some True) ''win_x''
     (Resolved \<lparr>ok = False, status = 404, statusText = ''Not Found'', body = Some fullFragment\<rparr>)
     = (None, worldA)"
  using createWindow_fetch_failure [of worldA "''/apps/missing.html''" "Some True" Rejected
      None None None None None None "''win_x''"]
    createWindow_fetch_failure [of worldA "''/apps/missing.html''" "Some True"
      "Resolved \<lparr>ok = False, status = 404, statusText = ''Not Found'', body = Some fullFragment\<rparr>"
      None None None None None None "''win_x''"]
  by (simp add: existingWindow_def param_def worldA_eq)

text \<open>
  Claim C5. When \<^verbatim>\<open>checkDuplicate\<close> is true and a record of the registry has the requested
  path, \<^verbatim>\<open>createWindow\<close> returns the element of the first such record and does nothing
  but focus it: the registry and the children of the document body are as before, no
  element is allocated, and the element is the focused window with the top stacking value.
\<close>

theorem createWindow_duplicate:
  assumes "find (\<lambda>win. win_appPath win = appPath) (windows w) = Some existing"
    and "createWindow w appPath width height top' left bottom right (Some True) windowId fetched
           = (result, w')"
  shows "result = Some (win_element existing) \<and>
         w' = activateWindow w (win_element existing) \<and>
         windows w' = windows w \<and>
         bodyChildren w' = bodyChildren w \<and>
         nextRef w' = nextRef w \<and>
         activeWindow w' = Some (win_element existing) \<and>
         style_zIndex (elems w' (win_element existing)) = Some (maxZIndex w')"
  using assms
  by (auto simp: createWindow_def Let_def existingWindow_def param_def activateWindow_fields
      activateWindow_zIndex)

text \<open>With A and B open and B focused, asking for the path of A again returns A, focused.\<close>

theorem createWindow_duplicate_witness:
  "find (\<lambda>win. win_appPath win = ''/apps/notes.html'') (windows worldAB)
     = Some \<lparr>win_id = ''win_a'', win_element = 0, win_appPath = ''/apps/notes.html''\<rparr> \<and>
   fst createdDuplicate = Some 0 \<and>
   length (windows (snd createdDuplicate)) = 2 \<and>
   activeWindow (snd createdDuplicate) = Some 0 \<and>
   style_zIndex (elems (snd createdDuplicate) 0) = Some 105"
proof -
  have f: "find (\<lambda>win. win_appPath win = ''/apps/notes.html'') (windows worldAB)
     = Some \<lparr>win_id = ''win_a'', win_element = 0, win_appPath = ''/apps/notes.html''\<rparr>"
    by (simp add: worldAB_eq)
  have r: "createWindow worldAB ''/apps/notes.html'' None None None None None None
     (Some True) ''win_c'' Rejected = (fst createdDuplicate, snd createdDuplicate)"
    by (simp add: createdDuplicate_def)
  from createWindow_duplicate [OF f r] show ?thesis
    using f by (simp add: activateWindow_fields activateWindow_zIndex worldAB_eq)
qed

text \<open>
  Claim C7, evaluated where the code departs from it. With the geometry arguments omitted
  the defaults are the strings \<^verbatim>\<open>'400'\<close> and \<^verbatim>\<open>'300'\<close>, which are not numbers and are
  therefore assigned as they are, without a unit; the numbers 400 and 300 passed by the
  caller give \<^verbatim>\<open>'400px'\<close> and \<^verbatim>\<open>'300px'\<close>.
\<close>

theorem createWindow_default_geometry:
  "fst createdDefault = Some 0 \<and>
   style_width (elems (snd createdDefault) 0) = ''400'' \<and>
   style_maxHeight (elems (snd createdDefault) 0) = ''300'' \<and>
   style_width (elems (snd createdA) 0) = ''400px'' \<and>
   style_maxHeight (elems (snd createdA) 0) = ''300px''"
  by (simp add: createdA_eq fullWindow_def)
    (simp add: createdDefault_def createWindow_def existingWindow_def fetchedOk_def
      fullFragment_def initial_def param_def bindWindowEvents_def addListeners_def Let_def
      activateWindow_def addInactive_def newDiv_def css_def)

text \<open>The rule for an argument that is given: a number gets the unit, a string is kept.\<close>

lemma css_cases: "css (Num n) = showInt n @ ''px''" "css (Str s) = s"
  by (simp_all add: css_def px_def)

subsection \<open>Wiring the events\<close>

text \<open>
  Claim C3, evaluated where the code departs from it. For a fragment with a title bar and a
  body but no status bar, the status bar is wired under the test for the body, so
  \<^verbatim>\<open>addEventListener\<close> is called on null; the error is caught by \<^verbatim>\<open>createWindow\<close>, which
  resolves to null although the element is attached and registered. The window is not
  focused, and of its listeners only those of the title-bar focus and of the body exist.
\<close>

theorem createWindow_without_statusBar:
  "fst createdNoStatus = None \<and>
   map win_element (windows (snd createdNoStatus)) = [0] \<and>
   bodyChildren (snd createdNoStatus) = [0] \<and>
   activeWindow (snd createdNoStatus) = None \<and>
   listeners (elems (snd createdNoStatus) 0) =
     [(TitleBar, mousedown, ExceptClose True ActivateHandler),
      (TitleBar, touchstart, ExceptClose True ActivateHandler),
      (WindowBody, mousedown, ActivateHandler),
      (WindowBody, touchstart, ActivateHandler)]"
  by (simp add: createdNoStatus_def createWindow_def existingWindow_def fetchedOk_def
      noStatusFragment_def initial_def param_def bindWindowEvents_def addListeners_def Let_def
      newDiv_def)

lemma dispatchEvent_no_listeners:
  "listeners (elems w r) = [] \<Longrightarrow> dispatchEvent w r rg e onClose rect = w"
  by (simp add: dispatchEvent_def)

text \<open>
  Claim C6, as amended. For a fetched fragment without a title bar the creation succeeds:
  the new element is returned, registered, attached and focused. But
  \<^verbatim>\<open>bindWindowEvents\<close> returns before it registers anything, so the window has no listener
  at all, and an event on any of its regions, the close control included, leaves the
  world as it is.
\<close>

theorem createWindow_without_titleBar:
  assumes "existingWindow w appPath (param checkDuplicate False) = None"
    and "fetched = Resolved response" and "ok response" and "body response = Some appContent"
    and "\<not> fr_titleBar appContent"
    and "createWindow w appPath width height top' left bottom right checkDuplicate windowId fetched
           = (result, w')"
  shows "result = Some (nextRef w) \<and>
         windows w' = windows w @
           [\<lparr>win_id = windowId, win_element = nextRef w, win_appPath = appPath\<rparr>] \<and>
         bodyChildren w' = bodyChildren w @ [nextRef w] \<and>
         activeWindow w' = Some (nextRef w) \<and>
         listeners (elems w' (nextRef w)) = [] \<and>
         dispatchEvent w' (nextRef w) rg e onClose rect = w'"
proof -
  have "result = Some (nextRef w) \<and>
         windows w' = windows w @
           [\<lparr>win_id = windowId, win_element = nextRef w, win_appPath = appPath\<rparr>] \<and>
         bodyChildren w' = bodyChildren w @ [nextRef w] \<and>
         activeWindow w' = Some (nextRef w) \<and>
         listeners (elems w' (nextRef w)) = []"
    using assms
    by (auto simp: createWindow_def Let_def bindWindowEvents_def activateWindow_fields
        activateWindow_elems newDiv_def)
  then show ?thesis
    by (simp add: dispatchEvent_no_listeners)
qed

text \<open>The window of the fragment without a title bar, and a touch-end on its close control.\<close>

theorem createWindow_without_titleBar_witness:
  "existingWindow (initial :: rat world) ''/apps/notes.html'' (param None False) = None \<and>
   ok \<lparr>ok = True, status = 200, statusText = ''OK'', body = Some noTitleFragment\<rparr> \<and>
   \<not> fr_titleBar noTitleFragment \<and>
   fst createdNoTitle = Some 0 \<and>
   map win_element (windows (snd createdNoTitle)) = [0] \<and>
   listeners (elems (snd createdNoTitle) 0) = [] \<and>
   dispatchEvent (snd createdNoTitle) 0 CloseButton (TouchEvent touchend []) True (0, 0)
     = snd createdNoTitle"
proof -
  have none: "existingWindow (initial :: rat world) ''/apps/notes.html'' (param None False) = None"
    by (simp add: existingWindow_def param_def)
  have r: "createWindow initial ''/apps/notes.html'' (Some (Num 400)) (Some (Num 300))
     None None None None None ''win_a'' (fetchedOk noTitleFragment)
     = (fst createdNoTitle, snd createdNoTitle)"
    by (simp add: createdNoTitle_def)
  have t: "\<not> fr_titleBar noTitleFragment"
    by (simp add: noTitleFragment_def)
  from createWindow_without_titleBar [OF none fetchedOk_def _ _ t r,
      of CloseButton "TouchEvent touchend []" True "(0, 0)"]
  show ?thesis
    using none t by (simp add: initial_def)
qed

text \<open>
  Claim C6 as it was stated fails: the fragment has a close control and no title bar, its
  window is created, and a click or a touch-end on the close control leaves the window
  registered and attached. The same click closes window A, whose fragment has a title bar.
\<close>

theorem createWindow_without_titleBar_counterexample:
  "fr_titleBar noTitleFragment = False \<and> fr_closeButton noTitleFragment = True \<and>
   fst createdNoTitle = Some 0 \<and>
   hasCloseButton (elems (snd createdNoTitle) 0) = True \<and>
   map win_element (windows (dispatchEvent (snd createdNoTitle) 0 CloseButton
      (MouseEvent click 5 5) True (0, 0))) = [0] \<and>
   bodyChildren (dispatchEvent (snd createdNoTitle) 0 CloseButton
      (MouseEvent click 5 5) True (0, 0)) = [0] \<and>
   map win_element (windows (dispatchEvent (snd createdNoTitle) 0 CloseButton
      (TouchEvent touchend []) True (0, 0))) = [0] \<and>
   windows (dispatchEvent worldA 0 CloseButton (MouseEvent click 5 5) True (0, 0)) = []"
  by (simp add: createdNoTitle_def createWindow_def existingWindow_def fetchedOk_def
      noTitleFragment_def initial_def param_def bindWindowEvents_def addListeners_def Let_def
      activateWindow_def addInactive_def newDiv_def dispatchEvent_def
      worldA_eq fullWindow_def fullListeners_def closeWindow_def splice1_def)

subsection \<open>Dragging\<close>

lemma dragA_eq:
  "dragA =
     \<lparr>windows = [\<lparr>win_id = ''win_a'', win_element = 0, win_appPath = ''/apps/notes.html''\<rparr>,
                 \<lparr>win_id = ''win_b'', win_element = 1, win_appPath = ''/apps/paint.html''\<rparr>],
      maxZIndex = 106, activeWindow = Some 0,
      currentMove = Some \<lparr>mv_windowElement = 0, startX = Some 10, startY = Some 20,
                          windowStartX = 50, windowStartY = 60, isTouch = False\<rparr>,
      elems = (\<lambda>r. newDiv)(0 := fullWindow ''win_a'' 106 False, 1 := fullWindow ''win_b'' 104 True),
      nextRef = 2, bodyChildren = [0, 1],
      docListeners = [(mousemove, HandleMove), (mouseup, EndMove)]\<rparr>"
  by (simp add: dragA_def worldAB_eq dispatchEvent_def fullWindow_def fullListeners_def
      startMove_def activateWindow_def addInactive_def Let_def moveListeners_def addDocListener_def
      fun_upd_twist)





lemma runDocHandler_idle:
  "currentMove v = None \<Longrightarrow> runDocHandler toText v h e = v"
  by (cases h) (simp_all add: handleMove_def endMove_def)

lemma dispatchDocument_idle:
  assumes "currentMove v = None"
  shows "dispatchDocument toText v e = v"
proof -
  have "foldl (\<lambda>w' h. runDocHandler toText w' h e) v hs = v" for hs
    using assms by (induction hs) (simp_all add: runDocHandler_idle)
  then show ?thesis
    by (simp add: dispatchDocument_def)
qed

lemma dragHalf_eq:
  "dragHalf =
     \<lparr>windows = [\<lparr>win_id = ''win_a'', win_element = 0, win_appPath = ''/apps/notes.html''\<rparr>],
      maxZIndex = 104, activeWindow = Some 0,
      currentMove = Some \<lparr>mv_windowElement = 0, startX = Some 300, startY = Some 320,
                          windowStartX = 467 / 2, windowStartY = 623 / 2, isTouch = False\<rparr>,
      elems = (\<lambda>r. newDiv)(0 := fullWindow ''win_a'' 104 False),
      nextRef = 1, bodyChildren = [0],
      docListeners = [(mousemove, HandleMove), (mouseup, EndMove)]\<rparr>"
  by (simp add: dragHalf_def worldA_eq dispatchEvent_def fullWindow_def fullListeners_def
      startMove_def activateWindow_def addInactive_def Let_def moveListeners_def addDocListener_def)

text \<open>
  Claim C8. The coordinates are of any number type, with its own \<open>+\<close> and \<open>-\<close>, and the
  text of a number is given by any \<open>toText\<close>. While a drag record \<open>m\<close> with start
  coordinates \<open>(sx, sy)\<close> exists, a move event of the modality of the drag with the pointer
  at \<open>(cx, cy)\<close> sets the left and top styles of the dragged window to the window's start
  position plus the pointer's delta \<open>(cx - sx, cy - sy)\<close>, in pixels; it changes nothing
  else and keeps the record. \<^verbatim>\<open>endMove\<close> clears the record and removes the document
  listeners of that modality and nothing else, and after it no event that reaches the
  document changes anything.
\<close>

theorem drag_session:
  assumes "currentMove w = Some m" and "startX m = Some sx" and "startY m = Some sy"
    and "event = (if isTouch m then TouchEvent touchmove ((cx, cy) # ts)
                  else MouseEvent mousemove cx cy)"
  shows "handleMove toText w event =
           (None, w\<lparr>elems := (elems w)(mv_windowElement m := (elems w (mv_windowElement m))
              \<lparr>style_left := toText (windowStartX m + (cx - sx)) @ ''px'',
               style_top := toText (windowStartY m + (cy - sy)) @ ''px''\<rparr>)\<rparr>) \<and>
         style_left (elems (snd (handleMove toText w event)) (mv_windowElement m))
           = toText (windowStartX m + (cx - sx)) @ ''px'' \<and>
         style_top (elems (snd (handleMove toText w event)) (mv_windowElement m))
           = toText (windowStartY m + (cy - sy)) @ ''px'' \<and>
         currentMove (snd (handleMove toText w event)) = Some m \<and>
         endMove w =
           w\<lparr>docListeners := filter (\<lambda>l. l \<notin> set (moveListeners (isTouch m))) (docListeners w),
             currentMove := None\<rparr> \<and>
         currentMove (endMove w) = None \<and>
         elems (endMove w) = elems w \<and>
         dispatchDocument toText (endMove w) e' = endMove w"
proof -
  have move: "handleMove toText w event =
           (None, w\<lparr>elems := (elems w)(mv_windowElement m := (elems w (mv_windowElement m))
              \<lparr>style_left := toText (windowStartX m + (cx - sx)) @ ''px'',
               style_top := toText (windowStartY m + (cy - sy)) @ ''px''\<rparr>)\<rparr>)"
    using assms by (simp add: handleMove_def Let_def jsSub_def jsAdd_def px_def)
  have "end": "endMove w =
           w\<lparr>docListeners := filter (\<lambda>l. l \<notin> set (moveListeners (isTouch m))) (docListeners w),
             currentMove := None\<rparr>"
    using assms(1) by (simp add: endMove_def)
  have idle: "currentMove (endMove w) = None"
    by (simp add: "end")
  have still: "dispatchDocument toText (endMove w) e' = endMove w"
    by (rule dispatchDocument_idle [OF idle])
  have left: "style_left (elems (snd (handleMove toText w event)) (mv_windowElement m))
           = toText (windowStartX m + (cx - sx)) @ ''px''"
    and top: "style_top (elems (snd (handleMove toText w event)) (mv_windowElement m))
           = toText (windowStartY m + (cy - sy)) @ ''px''"
    and same: "currentMove (snd (handleMove toText w event)) = Some m"
    using assms(1) by (simp_all add: move)
  have kept: "elems (endMove w) = elems w"
    by (simp add: "end")
  show ?thesis
    by (intro conjI move left top same "end" idle kept still)
qed

lemma showRat_samples: "showRat 239 = ''239''" "showRat (637 / 2) = ''318.5''"
  "showRat 55 = ''55''" "showRat 67 = ''67''"
  by code_simp+

text \<open>
  The drag of the window at (233.5, 311.5): pressed at (300, 320), the mouse moves to
  (305.5, 327) and the window to (239, 318.5); after the end no document listener is left
  and a further move changes nothing. The drag of A in the run with two windows: pressed at
  (10, 20) with the window at (50, 60), the mouse moves to (15, 27) and the window to
  (55, 67).
\<close>

theorem drag_session_witness:
  "currentMove dragHalf = Some \<lparr>mv_windowElement = 0, startX = Some 300, startY = Some 320,
                          windowStartX = 467 / 2, windowStartY = 623 / 2, isTouch = False\<rparr> \<and>
   style_left (elems (snd (handleMove showRat dragHalf (MouseEvent mousemove (611 / 2) 327))) 0)
     = ''239px'' \<and>
   style_top (elems (snd (handleMove showRat dragHalf (MouseEvent mousemove (611 / 2) 327))) 0)
     = ''318.5px'' \<and>
   currentMove (endMove dragHalf) = None \<and>
   docListeners (endMove dragHalf) = [] \<and>
   dispatchDocument showRat (endMove dragHalf) (MouseEvent mousemove 99 99) = endMove dragHalf \<and>
   style_left (elems (snd (handleMove showRat dragA (MouseEvent mousemove 15 27))) 0) = ''55px'' \<and>
   style_top (elems (snd (handleMove showRat dragA (MouseEvent mousemove 15 27))) 0) = ''67px''"
proof -
  have h: "currentMove dragHalf = Some \<lparr>mv_windowElement = 0, startX = Some 300,
      startY = Some 320, windowStartX = 467 / 2, windowStartY = 623 / 2, isTouch = False\<rparr>"
    by (simp add: dragHalf_eq)
  have a: "currentMove dragA = Some \<lparr>mv_windowElement = 0, startX = Some 10, startY = Some 20,
                          windowStartX = 50, windowStartY = 60, isTouch = False\<rparr>"
    by (simp add: dragA_eq)
  have l: "docListeners dragHalf = [(mousemove, HandleMove), (mouseup, EndMove)]"
    by (simp add: dragHalf_eq)
  from drag_session [OF h, of 300 320 "MouseEvent mousemove (611 / 2) 327" "611 / 2" 327 "[]"
      showRat "MouseEvent mousemove 99 99"]
    drag_session [OF a, of 10 20 "MouseEvent mousemove 15 27" 15 27 "[]" showRat
      "MouseEvent mousemove 99 99"]
  show ?thesis
    using h by (simp add: showRat_samples l moveListeners_def dispatchDocument_idle)
qed

end
